theory Spec2Isabelle
  imports Main "HOL-Library.Word"
begin

section \<open>JavaScript strings\<close>

text \<open>
  A JavaScript string is a sequence of 16-bit UTF-16 code units: \<open>inputText.length\<close> is
  the number of code units, \<open>inputText[i]\<close> is the one-unit string at index \<open>i\<close>, and
  \<open>char.charCodeAt(0)\<close> is its numeric value. A regular expression without the \<open>u\<close> flag
  matches code units, and \<open>>=\<close> on two one-unit strings compares the units.
\<close>

type_synonym code_unit = "16 word"
type_synonym jsstring = "code_unit list"

text \<open>A literal of ASCII characters as a JavaScript string.\<close>

definition js :: "string \<Rightarrow> jsstring" where
  "js s = map (\<lambda>c. of_nat (of_char c)) s"

text \<open>
  The UTF-16 form of a Unicode scalar value, as the language stores it: one unit in the
  Basic Multilingual Plane, a surrogate pair above it.
\<close>

definition utf16 :: "nat \<Rightarrow> code_unit list" where
  "utf16 cp =
     (if cp < 0x10000 then [of_nat cp]
      else [of_nat (0xD800 + (cp - 0x10000) div 0x400),
            of_nat (0xDC00 + (cp - 0x10000) mod 0x400)])"

definition js_of_scalars :: "nat list \<Rightarrow> jsstring" where
  "js_of_scalars cps = concat (map utf16 cps)"

abbreviation NL :: code_unit where "NL \<equiv> 0x0A"
abbreviation CR :: code_unit where "CR \<equiv> 0x0D"
abbreviation TAB :: code_unit where "TAB \<equiv> 0x09"
abbreviation SP :: code_unit where "SP \<equiv> 0x20"

section \<open>The statistics report\<close>

text \<open>\<open>interface CharacterStats\<close>; the optional \<open>tokens\<close> is \<open>None\<close> when undefined.\<close>

record CharacterStats =
  totalChars :: int
  totalCharsNoSpaces :: int
  words :: int
  lines :: int
  paragraphs :: int
  chineseChars :: int
  englishChars :: int
  numbers :: int
  punctuation :: int
  spaces :: int
  tokens :: "int option"

section \<open>Token counting\<close>

text \<open>\<open>SUPPORTED_MODELS\<close>, in the order of the source.\<close>

record model_entry =
  m_value :: string
  m_label :: string
  m_encoding :: string

definition SUPPORTED_MODELS :: "model_entry list" where
  "SUPPORTED_MODELS =
    [\<lparr>m_value = ''gpt-4o'', m_label = ''GPT-4o'', m_encoding = ''o200k_base''\<rparr>,
     \<lparr>m_value = ''gpt-4o-mini'', m_label = ''GPT-4o Mini'', m_encoding = ''o200k_base''\<rparr>,
     \<lparr>m_value = ''o1-preview'', m_label = ''o1-preview'', m_encoding = ''o200k_base''\<rparr>,
     \<lparr>m_value = ''o1-mini'', m_label = ''o1-mini'', m_encoding = ''o200k_base''\<rparr>,
     \<lparr>m_value = ''gpt-4-turbo'', m_label = ''GPT-4 Turbo'', m_encoding = ''cl100k_base''\<rparr>,
     \<lparr>m_value = ''gpt-4'', m_label = ''GPT-4'', m_encoding = ''cl100k_base''\<rparr>,
     \<lparr>m_value = ''gpt-3.5-turbo'', m_label = ''GPT-3.5 Turbo'', m_encoding = ''cl100k_base''\<rparr>,
     \<lparr>m_value = ''text-davinci-003'', m_label = ''Text Davinci 003'', m_encoding = ''p50k_base''\<rparr>,
     \<lparr>m_value = ''text-davinci-002'', m_label = ''Text Davinci 002'', m_encoding = ''p50k_base''\<rparr>,
     \<lparr>m_value = ''text-davinci-001'', m_label = ''Text Davinci 001'', m_encoding = ''r50k_base''\<rparr>]"

text \<open>
  The four modules of the external package \<open>gpt-tokenizer\<close> that the source imports
  dynamically. The package is not part of the program, so it is a parameter: a provider
  gives for each module either nothing (the import is rejected) or its \<open>encode\<close>
  function, which on a text either throws (\<open>None\<close>) or returns the token sequence.
\<close>

datatype tokenizer_module = O200k_base | Cl100k_base | P50k_base | R50k_base

type_synonym encoder = "jsstring \<Rightarrow> int list option"
type_synonym provider = "tokenizer_module \<Rightarrow> encoder option"

text \<open>The \<open>switch (model.encoding)\<close> with its default branch.\<close>

definition module_of_encoding :: "string \<Rightarrow> tokenizer_module" where
  "module_of_encoding enc =
     (if enc = ''o200k_base'' then O200k_base
      else if enc = ''cl100k_base'' then Cl100k_base
      else if enc = ''p50k_base'' then P50k_base
      else if enc = ''r50k_base'' then R50k_base
      else Cl100k_base)"

text \<open>
  \<open>calculateTokens\<close>: the value the returned promise resolves to. An unknown model
  returns 0 before any import; a rejected import is caught by the outer \<open>catch\<close> and a
  throwing \<open>encode\<close> by the inner one, both giving 0 (the \<open>console.error\<close> calls are not
  modelled). The promise never rejects.
\<close>

definition calculateTokens :: "provider \<Rightarrow> jsstring \<Rightarrow> string \<Rightarrow> int" where
  "calculateTokens prov inputText modelValue =
     (case find (\<lambda>m. m_value m = modelValue) SUPPORTED_MODELS of
        None \<Rightarrow> 0
      | Some model \<Rightarrow>
          (case prov (module_of_encoding (m_encoding model)) of
             None \<Rightarrow> 0
           | Some encode \<Rightarrow>
               (case encode inputText of
                  None \<Rightarrow> 0
                | Some toks \<Rightarrow> int (length toks))))"

section \<open>The classification scan\<close>

text \<open>The local variables of the first loop of \<open>calculateStats\<close>.\<close>

record scan =
  chineseChars_c :: int
  englishChars_c :: int
  numbers_c :: int
  punctuation_c :: int
  spaces_c :: int
  lines_c :: int
  paragraphs_c :: int
  inParagraph :: bool

text \<open>
  The character class of the punctuation test, as code units in the order of the source:
  full stop, comma, semicolon, colon, exclamation mark, question mark, apostrophe, double
  quote, round, square and curly brackets, hyphen, underscore, plus, equals, less-than,
  greater-than, slash, at sign, hash, dollar, percent, caret, ampersand, asterisk, tilde,
  backquote, vertical bar and backslash.
\<close>

definition punctuation_class :: "code_unit list" where
  "punctuation_class =
     [0x2E, 0x2C, 0x3B, 0x3A, 0x21, 0x3F, 0x27, 0x22, 0x28, 0x29, 0x5B, 0x5D, 0x7B, 0x7D,
      0x2D, 0x5F, 0x2B, 0x3D, 0x3C, 0x3E, 0x2F, 0x40, 0x23, 0x24, 0x25, 0x5E, 0x26, 0x2A,
      0x7E, 0x60, 0x7C, 0x5C]"

text \<open>One iteration of the first loop: lines and paragraphs, then the character type.\<close>

definition scan_step :: "code_unit \<Rightarrow> scan \<Rightarrow> scan" where
  "scan_step char s =
     (let code = unat char;
          s1 = (if char = NL then
                  (let s' = s\<lparr>lines_c := lines_c s + 1\<rparr>
                   in if inParagraph s'
                      then s'\<lparr>paragraphs_c := paragraphs_c s' + 1, inParagraph := False\<rparr>
                      else s')
                else if char \<noteq> SP \<and> char \<noteq> TAB \<and> char \<noteq> CR then
                  (if \<not> inParagraph s then s\<lparr>inParagraph := True\<rparr> else s)
                else s)
      in if char = SP \<or> char = TAB then s1\<lparr>spaces_c := spaces_c s1 + 1\<rparr>
         else if 0x30 \<le> char \<and> char \<le> 0x39 then s1\<lparr>numbers_c := numbers_c s1 + 1\<rparr>
         else if (65 \<le> code \<and> code \<le> 90) \<or> (97 \<le> code \<and> code \<le> 122)
           then s1\<lparr>englishChars_c := englishChars_c s1 + 1\<rparr>
         else if 0x4e00 \<le> code \<and> code \<le> 0x9fff
           then s1\<lparr>chineseChars_c := chineseChars_c s1 + 1\<rparr>
         else if char \<noteq> NL \<and> char \<noteq> CR \<and> char \<in> set punctuation_class
           then s1\<lparr>punctuation_c := punctuation_c s1 + 1\<rparr>
         else s1)"

text \<open>\<open>for (let i = 0; i < totalChars; i++)\<close> over the code units, first to last.\<close>

fun scan_loop :: "jsstring \<Rightarrow> scan \<Rightarrow> scan" where
  "scan_loop [] s = s"
| "scan_loop (char # rest) s = scan_loop rest (scan_step char s)"

text \<open>
  The test of the second loop, a character class of the ranges a-z, A-Z, 0-9 and
  U+4E00 to U+9FFF.
\<close>

definition isWordChar :: "code_unit \<Rightarrow> bool" where
  "isWordChar char \<longleftrightarrow>
     (0x61 \<le> char \<and> char \<le> 0x7A) \<or> (0x41 \<le> char \<and> char \<le> 0x5A) \<or>
     (0x30 \<le> char \<and> char \<le> 0x39) \<or> (0x4e00 \<le> char \<and> char \<le> 0x9fff)"

text \<open>The second loop, on the pair \<open>(words, inWord)\<close>.\<close>

fun word_loop :: "jsstring \<Rightarrow> int \<times> bool \<Rightarrow> int \<times> bool" where
  "word_loop [] (wc, inWord) = (wc, inWord)"
| "word_loop (char # rest) (wc, inWord) =
     (if isWordChar char \<and> \<not> inWord then word_loop rest (wc + 1, True)
      else if \<not> isWordChar char then word_loop rest (wc, False)
      else word_loop rest (wc, inWord))"

text \<open>
  \<open>calculateStats(inputText, includeTokens, modelValue)\<close>: the value its promise
  resolves to. The empty text returns early with every count 0.
\<close>

definition calculateStats :: "provider \<Rightarrow> jsstring \<Rightarrow> bool \<Rightarrow> string \<Rightarrow> CharacterStats" where
  "calculateStats prov inputText includeTokens modelValue =
     (let total = int (length inputText)
      in if total = 0 then
           \<lparr>totalChars = 0, totalCharsNoSpaces = 0, words = 0, lines = 0, paragraphs = 0,
            chineseChars = 0, englishChars = 0, numbers = 0, punctuation = 0, spaces = 0,
            tokens = (if includeTokens then Some 0 else None)\<rparr>
         else
           (let s = scan_loop inputText
                      \<lparr>chineseChars_c = 0, englishChars_c = 0, numbers_c = 0,
                       punctuation_c = 0, spaces_c = 0, lines_c = 1, paragraphs_c = 0,
                       inParagraph = False\<rparr>;
                pars = (if inParagraph s then paragraphs_c s + 1 else paragraphs_c s);
                noSpaces = total - spaces_c s;
                wc = fst (word_loop inputText (0, False));
                toks = (if includeTokens
                        then Some (calculateTokens prov inputText modelValue) else None)
            in \<lparr>totalChars = total, totalCharsNoSpaces = noSpaces, words = wc,
                lines = lines_c s, paragraphs = pars, chineseChars = chineseChars_c s,
                englishChars = englishChars_c s, numbers = numbers_c s,
                punctuation = punctuation_c s, spaces = spaces_c s, tokens = toks\<rparr>))"

section \<open>The debounced update\<close>

text \<open>
  A pending \<open>setTimeout\<close> of \<open>updateStats\<close>: the delay and what the closure captured
  (\<open>inputText\<close>, \<open>enableTokenCount\<close>, \<open>selectedModel\<close>).
\<close>

record timer_callback =
  cb_delay :: int
  cb_inputText :: jsstring
  cb_enableTokenCount :: bool
  cb_selectedModel :: string

text \<open>
  The state of the component that \<open>updateStats\<close> touches: the published \<open>stats\<close>,
  \<open>isCalculating\<close>, the timer behind \<open>debounceTimeoutRef\<close> while it has not fired, and
  the calls of \<open>calculateTokens\<close> that a fired callback is awaiting, each with its
  arguments, oldest first.
\<close>

record component =
  stats :: CharacterStats
  isCalculating :: bool
  debounceTimeout :: "timer_callback option"
  awaiting :: "(jsstring \<times> string) list"

text \<open>
  \<open>updateStats(inputText)\<close>, with the \<open>enableTokenCount\<close> and \<open>selectedModel\<close> of the
  render it was created in. \<open>clearTimeout\<close> followed by \<open>setTimeout\<close> replaces the pending
  timer; nothing else is cancelled.
\<close>

definition updateStats :: "jsstring \<Rightarrow> bool \<Rightarrow> string \<Rightarrow> component \<Rightarrow> component" where
  "updateStats inputText enableTokenCount selectedModel st =
     (let textLength = int (length inputText);
          delay = (if textLength > 100000 then 2000
                   else if textLength > 50000 then 1000
                   else if textLength > 10000 then 600
                   else 300);
          st1 = (if textLength > 10000 \<or> enableTokenCount
                 then st\<lparr>isCalculating := True\<rparr> else st)
      in st1\<lparr>debounceTimeout :=
               Some \<lparr>cb_delay = delay, cb_inputText = inputText,
                     cb_enableTokenCount = enableTokenCount,
                     cb_selectedModel = selectedModel\<rparr>\<rparr>)"

text \<open>
  The timer callback, from its start to the \<open>await calculateTokens(...)\<close> where it
  suspends (or to its end when token counting is off): it publishes the basic report,
  then the report with \<open>tokens: -1\<close>, and starts the token computation.
  \<open>calculateStats\<close> with \<open>includeTokens = false\<close> awaits nothing, so no other task runs
  before this point.
\<close>

definition timer_fires :: "provider \<Rightarrow> component \<Rightarrow> component" where
  "timer_fires prov st =
     (case debounceTimeout st of
        None \<Rightarrow> st
      | Some cb \<Rightarrow>
          (let basic = calculateStats prov (cb_inputText cb) False (cb_selectedModel cb);
               st1 = st\<lparr>stats := basic, debounceTimeout := None\<rparr>
           in if cb_enableTokenCount cb then
                st1\<lparr>stats := (stats st1)\<lparr>tokens := Some (- 1)\<rparr>,
                    awaiting := awaiting st1 @ [(cb_inputText cb, cb_selectedModel cb)]\<rparr>
              else st1\<lparr>isCalculating := False\<rparr>))"

text \<open>
  The rest of the callback, when the \<open>k\<close>-th awaited \<open>calculateTokens\<close> resolves:
  \<open>setStats(prevStats => ({...prevStats, tokens}))\<close>, then the \<open>finally\<close> block. The
  promise never rejects, so the two \<open>catch\<close> blocks of the callback are not reached.
\<close>

definition tokens_resolve :: "provider \<Rightarrow> nat \<Rightarrow> component \<Rightarrow> component" where
  "tokens_resolve prov k st =
     (if k < length (awaiting st) then
        (let (inputText, selectedModel) = awaiting st ! k;
             n = calculateTokens prov inputText selectedModel
         in st\<lparr>stats := (stats st)\<lparr>tokens := Some n\<rparr>,
               isCalculating := False,
               awaiting := take k (awaiting st) @ drop (Suc k) (awaiting st)\<rparr>)
      else st)"

text \<open>The tasks of the event loop that concern the component, and a run of them.\<close>

datatype event =
    UpdateStats jsstring bool string
  | TimerFires
  | TokensResolve nat

fun step :: "provider \<Rightarrow> component \<Rightarrow> event \<Rightarrow> component" where
  "step prov st (UpdateStats inputText enableTokenCount selectedModel) =
     updateStats inputText enableTokenCount selectedModel st"
| "step prov st TimerFires = timer_fires prov st"
| "step prov st (TokensResolve k) = tokens_resolve prov k st"

definition run :: "provider \<Rightarrow> event list \<Rightarrow> component \<Rightarrow> component" where
  "run prov evs st = foldl (step prov) st evs"

text \<open>The component as \<open>useState\<close> and \<open>useRef\<close> initialise it.\<close>

definition initial :: component where
  "initial =
     \<lparr>stats = \<lparr>totalChars = 0, totalCharsNoSpaces = 0, words = 0, lines = 0, paragraphs = 0,
               chineseChars = 0, englishChars = 0, numbers = 0, punctuation = 0, spaces = 0,
               tokens = None\<rparr>,
      isCalculating = False, debounceTimeout = None, awaiting = []\<rparr>"

text \<open>
  Two providers for concrete runs: one whose every import is rejected, and one whose
  encoders give one token per code unit.
\<close>

definition rejecting :: provider where
  "rejecting m = None"

definition unit_encoder :: encoder where
  "unit_encoder inputText = Some (map uint inputText)"

definition per_unit :: provider where
  "per_unit m = Some unit_encoder"

text \<open>A provider whose modules load and whose \<open>encode\<close> throws on every text.\<close>

definition throwing_encoder :: encoder where
  "throwing_encoder inputText = None"

definition throwing :: provider where
  "throwing m = Some throwing_encoder"

text \<open>The five classification counters of the scan, together.\<close>

definition buckets :: "scan \<Rightarrow> int \<times> int \<times> int \<times> int \<times> int" where
  "buckets s = (chineseChars_c s, englishChars_c s, numbers_c s, punctuation_c s, spaces_c s)"

section \<open>Lines and paragraphs, as the specification words them\<close>

text \<open>
  The segments of a text between its newlines; the empty text has one, empty, segment.
\<close>

fun split_lines :: "jsstring \<Rightarrow> jsstring list" where
  "split_lines [] = [[]]"
| "split_lines (c # cs) =
     (if c = NL then [] # split_lines cs
      else (case split_lines cs of [] \<Rightarrow> [[c]] | l # ls \<Rightarrow> (c # l) # ls))"

text \<open>A line is non-blank when it has a character other than space, tab and carriage return.\<close>

definition nonblank_line :: "jsstring \<Rightarrow> bool" where
  "nonblank_line l = list_ex (\<lambda>c. c \<noteq> SP \<and> c \<noteq> TAB \<and> c \<noteq> CR) l"

text \<open>The number of maximal runs of \<open>True\<close> in a list: a run is counted where it ends.\<close>

fun count_runs :: "bool list \<Rightarrow> nat" where
  "count_runs [] = 0"
| "count_runs [b] = (if b then 1 else 0)"
| "count_runs (b # b' # bs) = (if b \<and> \<not> b' then 1 else 0) + count_runs (b' # bs)"

text \<open>
  The paragraph count in the words of the specification: the number of maximal runs of
  non-blank lines.
\<close>

definition spec_paragraphs :: "jsstring \<Rightarrow> int" where
  "spec_paragraphs s = int (count_runs (map nonblank_line (split_lines s)))"

section \<open>Properties of the scan\<close>

lemma totalChars_calculateStats: "totalChars (calculateStats prov s b m) = int (length s)"
  by (simp add: calculateStats_def Let_def)

lemma scan_step_sum:
  "chineseChars_c (scan_step c s) + englishChars_c (scan_step c s) + numbers_c (scan_step c s)
     + punctuation_c (scan_step c s) + spaces_c (scan_step c s)
   \<le> chineseChars_c s + englishChars_c s + numbers_c s + punctuation_c s + spaces_c s + 1"
  by (simp add: scan_step_def Let_def)

lemma scan_loop_sum:
  "chineseChars_c (scan_loop cs s) + englishChars_c (scan_loop cs s) + numbers_c (scan_loop cs s)
     + punctuation_c (scan_loop cs s) + spaces_c (scan_loop cs s)
   \<le> chineseChars_c s + englishChars_c s + numbers_c s + punctuation_c s + spaces_c s
       + int (length cs)"
proof (induction cs arbitrary: s)
  case Nil
  show ?case by simp
next
  case (Cons c cs)
  from Cons.IH [of "scan_step c s"] scan_step_sum [of c s]
  show ?case by simp
qed

lemma spaces_scan_step:
  "spaces_c (scan_step c s) = spaces_c s + (if c = SP \<or> c = TAB then 1 else 0)"
  by (simp add: scan_step_def Let_def)

lemma spaces_scan_loop:
  "spaces_c (scan_loop cs s) = spaces_c s + int (length (filter (\<lambda>c. c = SP \<or> c = TAB) cs))"
  by (induction cs arbitrary: s) (simp_all add: spaces_scan_step)

lemma par_scan_step:
  "paragraphs_c (scan_step c s) =
     (if c = NL \<and> inParagraph s then paragraphs_c s + 1 else paragraphs_c s)"
  "inParagraph (scan_step c s) =
     (if c = NL then False else inParagraph s \<or> (c \<noteq> SP \<and> c \<noteq> TAB \<and> c \<noteq> CR))"
  by (auto simp add: scan_step_def Let_def punctuation_class_def)

lemma split_lines_not_Nil: "split_lines cs \<noteq> []"
  by (induction cs) (auto split: list.splits)

lemma par_scan_loop:
  "(if inParagraph (scan_loop cs s) then paragraphs_c (scan_loop cs s) + 1
    else paragraphs_c (scan_loop cs s))
   = paragraphs_c s + (case split_lines cs of [] \<Rightarrow> 0
       | l # ls \<Rightarrow> (if inParagraph s \<or> nonblank_line l then 1 else 0)
                  + int (length (filter nonblank_line ls)))"
proof (induction cs arbitrary: s)
  case Nil
  show ?case by (simp add: nonblank_line_def)
next
  case (Cons c cs)
  obtain l ls where sl: "split_lines cs = l # ls"
    using split_lines_not_Nil [of cs] by (cases "split_lines cs") auto
  show ?case
    using Cons.IH [of "scan_step c s"] sl
    by (auto simp add: par_scan_step nonblank_line_def)
qed

lemma paragraphs_nonempty:
  "s \<noteq> [] \<Longrightarrow> paragraphs (calculateStats prov s b m) =
     (let r = scan_loop s \<lparr>chineseChars_c = 0, englishChars_c = 0, numbers_c = 0,
                       punctuation_c = 0, spaces_c = 0, lines_c = 1, paragraphs_c = 0,
                       inParagraph = False\<rparr>
      in if inParagraph r then paragraphs_c r + 1 else paragraphs_c r)"
  by (simp add: calculateStats_def Let_def)

lemma buckets_scan_step_cong:
  "buckets s = buckets s' \<Longrightarrow> buckets (scan_step c s) = buckets (scan_step c s')"
  by (simp add: buckets_def scan_step_def Let_def)

lemma buckets_scan_step_break:
  "c = NL \<or> c = CR \<Longrightarrow> buckets (scan_step c s) = buckets s"
  by (auto simp add: buckets_def scan_step_def Let_def)

lemma buckets_scan_loop_filter:
  "buckets s = buckets s' \<Longrightarrow>
   buckets (scan_loop (filter (\<lambda>c. c \<noteq> NL \<and> c \<noteq> CR) cs) s') = buckets (scan_loop cs s)"
proof (induction cs arbitrary: s s')
  case Nil
  then show ?case by simp
next
  case (Cons c cs)
  show ?case
  proof (cases "c = NL \<or> c = CR")
    case True
    then have "buckets (scan_step c s) = buckets s'"
      using Cons.prems buckets_scan_step_break [of c s] by simp
    from Cons.IH [OF this] True show ?thesis by auto
  next
    case False
    have "buckets (scan_step c s) = buckets (scan_step c s')"
      using Cons.prems by (rule buckets_scan_step_cong)
    from Cons.IH [OF this] False show ?thesis by simp
  qed
qed

lemma buckets_calculateStats:
  "(chineseChars (calculateStats prov s b m), englishChars (calculateStats prov s b m),
    numbers (calculateStats prov s b m), punctuation (calculateStats prov s b m),
    spaces (calculateStats prov s b m))
   = buckets (scan_loop s \<lparr>chineseChars_c = 0, englishChars_c = 0, numbers_c = 0,
                       punctuation_c = 0, spaces_c = 0, lines_c = 1, paragraphs_c = 0,
                       inParagraph = False\<rparr>)"
  by (cases s) (simp_all add: calculateStats_def Let_def buckets_def)

lemma spaces_calculateStats:
  "spaces (calculateStats prov s b m) = int (length (filter (\<lambda>c. c = SP \<or> c = TAB) s))"
  using buckets_calculateStats [of prov s b m] by (simp add: buckets_def spaces_scan_loop)

lemma noSpaces_calculateStats:
  "totalCharsNoSpaces (calculateStats prov s b m)
     = int (length s) - spaces (calculateStats prov s b m)"
  by (simp add: calculateStats_def Let_def)

lemma length_utf16: "length (utf16 cp) = (if cp < 0x10000 then 1 else 2)"
  by (simp add: utf16_def)

lemma length_js_of_scalars:
  "length (js_of_scalars cps) = length cps + length (filter (\<lambda>cp. 0x10000 \<le> cp) cps)"
  by (induction cps) (simp_all add: js_of_scalars_def length_utf16)

section \<open>Properties of the debounced update\<close>

lemma updateStats_fields:
  "stats (updateStats t e m st) = stats st"
  "awaiting (updateStats t e m st) = awaiting st"
  by (simp_all add: updateStats_def Let_def)

lemma awaiting_timer_fires: "\<exists>xs. awaiting (timer_fires prov st) = awaiting st @ xs"
  by (simp add: timer_fires_def Let_def split: option.splits)

text \<open>Until one of them resolves, the awaited token computations only grow at the end.\<close>

lemma awaiting_run:
  "\<forall>j. TokensResolve j \<notin> set evs \<Longrightarrow> \<exists>xs. awaiting (run prov evs st) = awaiting st @ xs"
proof (induction evs arbitrary: st)
  case Nil
  show ?case by (simp add: run_def)
next
  case (Cons e evs)
  from Cons.prems have rest: "\<forall>j. TokensResolve j \<notin> set evs" by simp
  from Cons.prems have "\<exists>ys. awaiting (step prov st e) = awaiting st @ ys"
    by (cases e) (auto simp add: updateStats_fields awaiting_timer_fires)
  then obtain ys where ys: "awaiting (step prov st e) = awaiting st @ ys" ..
  from Cons.IH [OF rest, of "step prov st e"]
  obtain xs where "awaiting (run prov evs (step prov st e)) = awaiting (step prov st e) @ xs" ..
  with ys show ?case by (simp add: run_def)
qed

lemma stats_tokens_resolve:
  "k < length (awaiting st) \<Longrightarrow> awaiting st ! k = (inputText, selectedModel) \<Longrightarrow>
   stats (tokens_resolve prov k st)
     = (stats st)\<lparr>tokens := Some (calculateTokens prov inputText selectedModel)\<rparr>"
  by (simp add: tokens_resolve_def Let_def)

text \<open>Two states that differ at most in \<open>isCalculating\<close> stay so under every task.\<close>

lemma step_same:
  "stats a = stats b \<Longrightarrow> debounceTimeout a = debounceTimeout b \<Longrightarrow> awaiting a = awaiting b \<Longrightarrow>
   stats (step prov a e) = stats (step prov b e) \<and>
   debounceTimeout (step prov a e) = debounceTimeout (step prov b e) \<and>
   awaiting (step prov a e) = awaiting (step prov b e)"
  by (cases e)
     (simp_all add: updateStats_def timer_fires_def tokens_resolve_def Let_def
        split: option.splits prod.splits)

lemma run_same:
  "stats a = stats b \<Longrightarrow> debounceTimeout a = debounceTimeout b \<Longrightarrow> awaiting a = awaiting b \<Longrightarrow>
   stats (run prov evs a) = stats (run prov evs b)"
proof (induction evs arbitrary: a b)
  case Nil
  then show ?case by (simp add: run_def)
next
  case (Cons e evs)
  from step_same [OF Cons.prems, of prov e] Cons.IH [of "step prov a e" "step prov b e"]
  show ?case by (simp add: run_def)
qed

section \<open>The claims\<close>

subsection \<open>C1: results of a superseded cycle\<close>

text \<open>
  Claim C1 as stated fails. A first cycle for the text \<open>a\<close> fires with token counting on;
  while its token computation is awaited, a second cycle for \<open>bb\<close> is scheduled and fires;
  then the first computation resolves. The published report is the basic report of \<open>bb\<close>
  carrying the token count 1 of \<open>a\<close>, where the count of \<open>bb\<close> is 2.
\<close>

theorem stale_tokens_published:
  "stats (run per_unit [UpdateStats (js ''a'') True ''gpt-4o'', TimerFires,
                        UpdateStats (js ''bb'') True ''gpt-4o'', TimerFires,
                        TokensResolve 0] initial)
     = (calculateStats per_unit (js ''bb'') False ''gpt-4o'')\<lparr>tokens := Some 1\<rparr> \<and>
   calculateTokens per_unit (js ''a'') ''gpt-4o'' = 1 \<and>
   calculateTokens per_unit (js ''bb'') ''gpt-4o'' = 2"
  by (simp add: run_def initial_def updateStats_def timer_fires_def tokens_resolve_def Let_def
      calculateTokens_def SUPPORTED_MODELS_def per_unit_def unit_encoder_def js_def)

text \<open>
  Claim C1, as the code has it. A call of \<open>updateStats\<close> cancels only a timer that has not
  fired: a cycle superseded before its timer fires leaves no trace in any report published
  later, whatever tasks follow. A cycle whose timer has fired is not cancelled, and there
  is no generation number: while no awaited token computation has resolved, whatever
  cycles are scheduled or fire in between, the \<open>k\<close>-th awaited computation is still awaited
  and, when it resolves, its count is published into the report current at that moment,
  changing the \<open>tokens\<close> field only.
\<close>

theorem superseded_cycles:
  "stats (run prov (UpdateStats t1 e1 m1 # UpdateStats t2 e2 m2 # evs) st)
     = stats (run prov (UpdateStats t2 e2 m2 # evs) st) \<and>
   (k < length (awaiting st) \<and> awaiting st ! k = (inputText, selectedModel) \<and>
    (\<forall>j. TokensResolve j \<notin> set evs) \<longrightarrow>
    stats (tokens_resolve prov k (run prov evs st))
      = (stats (run prov evs st))\<lparr>tokens := Some (calculateTokens prov inputText selectedModel)\<rparr>)"
proof (intro conjI impI)
  have "stats (run prov evs (updateStats t2 e2 m2 (updateStats t1 e1 m1 st)))
        = stats (run prov evs (updateStats t2 e2 m2 st))"
    by (rule run_same) (simp_all add: updateStats_def Let_def)
  then show "stats (run prov (UpdateStats t1 e1 m1 # UpdateStats t2 e2 m2 # evs) st)
     = stats (run prov (UpdateStats t2 e2 m2 # evs) st)"
    by (simp add: run_def)
next
  assume h: "k < length (awaiting st) \<and> awaiting st ! k = (inputText, selectedModel) \<and>
    (\<forall>j. TokensResolve j \<notin> set evs)"
  then obtain xs where xs: "awaiting (run prov evs st) = awaiting st @ xs"
    using awaiting_run [of evs prov st] by blast
  from h xs have "k < length (awaiting (run prov evs st))"
    and "awaiting (run prov evs st) ! k = (inputText, selectedModel)"
    by (simp_all add: nth_append)
  then show "stats (tokens_resolve prov k (run prov evs st))
      = (stats (run prov evs st))\<lparr>tokens := Some (calculateTokens prov inputText selectedModel)\<rparr>"
    by (rule stats_tokens_resolve)
qed

text \<open>
  The run of the counterexample as an instance: the computation for \<open>a\<close> is awaited, the
  cycle for \<open>bb\<close> is scheduled and fires, and the count of \<open>a\<close> is published.
\<close>

theorem superseded_cycles_witness:
  "stats (tokens_resolve per_unit 0
            (run per_unit [UpdateStats (js ''bb'') True ''gpt-4o'', TimerFires]
               (run per_unit [UpdateStats (js ''a'') True ''gpt-4o'', TimerFires] initial)))
   = (stats (run per_unit [UpdateStats (js ''bb'') True ''gpt-4o'', TimerFires]
               (run per_unit [UpdateStats (js ''a'') True ''gpt-4o'', TimerFires] initial)))
       \<lparr>tokens := Some (calculateTokens per_unit (js ''a'') ''gpt-4o'')\<rparr>"
proof -
  let ?st = "run per_unit [UpdateStats (js ''a'') True ''gpt-4o'', TimerFires] initial"
  have h: "0 < length (awaiting ?st) \<and> awaiting ?st ! 0 = (js ''a'', ''gpt-4o'') \<and>
           (\<forall>j. TokensResolve j \<notin> set [UpdateStats (js ''bb'') True ''gpt-4o'', TimerFires])"
    by (simp add: run_def initial_def updateStats_def timer_fires_def Let_def)
  show ?thesis
    using h superseded_cycles [where prov = per_unit and st = ?st and k = 0
        and evs = "[UpdateStats (js ''bb'') True ''gpt-4o'', TimerFires]"
        and inputText = "js ''a''" and selectedModel = "''gpt-4o''"]
    by blast
qed

subsection \<open>C2: the empty text\<close>

text \<open>
  Claim C2 as stated fails: for the empty text the early return gives \<open>lines = 0\<close>, not 1.
\<close>

theorem empty_text_lines: "lines (calculateStats rejecting [] False ''gpt-4o'') = 0"
  by (simp add: calculateStats_def)

text \<open>
  Claim C2, as the code has it. For the empty text the basic report has every count equal
  to 0, \<open>lines\<close> included, and no token count.
\<close>

theorem empty_text_report:
  "calculateStats prov [] False m =
     \<lparr>totalChars = 0, totalCharsNoSpaces = 0, words = 0, lines = 0, paragraphs = 0,
      chineseChars = 0, englishChars = 0, numbers = 0, punctuation = 0, spaces = 0,
      tokens = None\<rparr>"
  by (simp add: calculateStats_def)

subsection \<open>C3: paragraphs\<close>

text \<open>
  Claim C3 as stated fails. Two non-blank lines separated by a single newline are one
  maximal run of non-blank lines, and the code counts two paragraphs.
\<close>

theorem paragraphs_single_newline:
  "paragraphs (calculateStats rejecting (js ''a\<newline>b'') False ''gpt-4o'') = 2 \<and>
   spec_paragraphs (js ''a\<newline>b'') = 1"
  by (simp add: calculateStats_def Let_def js_def scan_step_def punctuation_class_def
      spec_paragraphs_def nonblank_line_def)

text \<open>
  Claim C3, as the code has it. For every text, \<open>paragraphs\<close> is the number of non-blank
  lines: a paragraph ends at every newline that follows non-blank content on its line, and
  one still open at the end of the text is counted.
\<close>

theorem paragraphs_nonblank_lines:
  "paragraphs (calculateStats prov s b m) = int (length (filter nonblank_line (split_lines s)))"
proof (cases "s = []")
  case True
  then show ?thesis by (simp add: calculateStats_def nonblank_line_def)
next
  case False
  obtain l ls where sl: "split_lines s = l # ls"
    using split_lines_not_Nil [of s] by (cases "split_lines s") auto
  show ?thesis
    unfolding paragraphs_nonempty [OF False] Let_def par_scan_loop sl
    by simp
qed

subsection \<open>C4: what \<open>totalChars\<close> counts\<close>

text \<open>
  Claim C4 as stated fails: the one scalar value U+1F600, an emoji of an astral plane, is
  two code units, and \<open>totalChars\<close> is 2.
\<close>

theorem astral_totalChars:
  "totalChars (calculateStats rejecting (js_of_scalars [0x1F600]) False ''gpt-4o'') = 2 \<and>
   length [0x1F600 :: nat] = 1"
  by (simp add: totalChars_calculateStats length_js_of_scalars)

text \<open>
  Claim C4, as the code has it. For every text, \<open>totalChars\<close> is the number of UTF-16 code
  units, over which the loops run: for the text of a sequence of scalar values it is the
  length of the sequence plus the number of its values above U+FFFF, each of which
  contributes 2.
\<close>

theorem totalChars_code_units:
  "totalChars (calculateStats prov s b m) = int (length s) \<and>
   totalChars (calculateStats prov (js_of_scalars cps) b m)
     = int (length cps) + int (length (filter (\<lambda>cp. 0x10000 \<le> cp) cps))"
  by (simp add: totalChars_calculateStats length_js_of_scalars)

subsection \<open>C5: the sums of the report\<close>

text \<open>
  Claim C5. For every text, \<open>totalChars = totalCharsNoSpaces + spaces\<close>, and the five
  classification counts together do not exceed \<open>totalChars\<close>: a character is counted in at
  most one of them.
\<close>

theorem report_sums:
  "totalChars (calculateStats prov s b m)
     = totalCharsNoSpaces (calculateStats prov s b m) + spaces (calculateStats prov s b m) \<and>
   chineseChars (calculateStats prov s b m) + englishChars (calculateStats prov s b m)
     + numbers (calculateStats prov s b m) + punctuation (calculateStats prov s b m)
     + spaces (calculateStats prov s b m) \<le> totalChars (calculateStats prov s b m)"
  using scan_loop_sum [of s "\<lparr>chineseChars_c = 0, englishChars_c = 0, numbers_c = 0,
                       punctuation_c = 0, spaces_c = 0, lines_c = 1, paragraphs_c = 0,
                       inParagraph = False\<rparr>"]
  by (simp add: calculateStats_def Let_def)

subsection \<open>C6: the debounce delay\<close>

text \<open>
  Claim C6. Every call of \<open>updateStats\<close> sets a timer whose delay follows the length of the
  text of that call: 2000 ms above 100000, 1000 ms from 50001 to 100000, 600 ms from 10001
  to 50000, and 300 ms up to 10000.
\<close>

theorem debounce_delay_tiers:
  "(100000 < length inputText \<longrightarrow>
      map_option cb_delay (debounceTimeout (updateStats inputText en sel st)) = Some 2000) \<and>
   (50001 \<le> length inputText \<and> length inputText \<le> 100000 \<longrightarrow>
      map_option cb_delay (debounceTimeout (updateStats inputText en sel st)) = Some 1000) \<and>
   (10001 \<le> length inputText \<and> length inputText \<le> 50000 \<longrightarrow>
      map_option cb_delay (debounceTimeout (updateStats inputText en sel st)) = Some 600) \<and>
   (length inputText \<le> 10000 \<longrightarrow>
      map_option cb_delay (debounceTimeout (updateStats inputText en sel st)) = Some 300)"
  by (simp add: updateStats_def Let_def)

text \<open>The lengths 10000, 10001, 50001 and 100001 give 300, 600, 1000 and 2000 ms.\<close>

theorem debounce_delay_tiers_witness:
  "map_option cb_delay
     (debounceTimeout (updateStats (replicate 10000 0x61) False ''gpt-4o'' initial)) = Some 300 \<and>
   map_option cb_delay
     (debounceTimeout (updateStats (replicate 10001 0x61) False ''gpt-4o'' initial)) = Some 600 \<and>
   map_option cb_delay
     (debounceTimeout (updateStats (replicate 50001 0x61) False ''gpt-4o'' initial)) = Some 1000 \<and>
   map_option cb_delay
     (debounceTimeout (updateStats (replicate 100001 0x61) False ''gpt-4o'' initial)) = Some 2000"
  using debounce_delay_tiers [of "replicate 10000 0x61" False "''gpt-4o''" initial]
        debounce_delay_tiers [of "replicate 10001 0x61" False "''gpt-4o''" initial]
        debounce_delay_tiers [of "replicate 50001 0x61" False "''gpt-4o''" initial]
        debounce_delay_tiers [of "replicate 100001 0x61" False "''gpt-4o''" initial]
  by simp

subsection \<open>C7: a sample text\<close>

text \<open>
  Claim C7 as stated fails: the text of \<open>a\<close>, space, \<open>b\<close>, newline, \<open>c\<close> has one space, and
  the newline is not counted as one, so \<open>spaces\<close> is 1, not 2.
\<close>

theorem sample_spaces:
  "spaces (calculateStats rejecting (js ''a b\<newline>c'') False ''gpt-4o'') = 1"
  by (simp add: calculateStats_def Let_def js_def scan_step_def punctuation_class_def)

text \<open>
  Claim C7, as the code has it. For that text the report has \<open>totalChars = 5\<close>,
  \<open>spaces = 1\<close>, \<open>englishChars = 3\<close>, \<open>lines = 2\<close>, \<open>words = 3\<close> and \<open>paragraphs = 2\<close>.
\<close>

theorem sample_report:
  "calculateStats prov (js ''a b\<newline>c'') False m =
     \<lparr>totalChars = 5, totalCharsNoSpaces = 4, words = 3, lines = 2, paragraphs = 2,
      chineseChars = 0, englishChars = 3, numbers = 0, punctuation = 0, spaces = 1,
      tokens = None\<rparr>"
  by (simp add: calculateStats_def Let_def js_def scan_step_def punctuation_class_def
      isWordChar_def)

subsection \<open>C8: a failing tokenizer\<close>

text \<open>
  Claim C8. When the module of the selected model cannot be imported, or its \<open>encode\<close>
  throws on the text, \<open>calculateTokens\<close> gives 0. In a cycle with token counting on, the
  timer callback has by then published the basic report of its text (with the pending mark
  \<open>-1\<close>), and when the failed computation resolves the report is that same basic report
  with \<open>tokens = 0\<close>. In any state, a resolving token computation changes no field of the
  published report other than \<open>tokens\<close>.
\<close>

theorem tokenizer_failure_isolated:
  "(find (\<lambda>m. m_value m = selectedModel) SUPPORTED_MODELS = Some model \<and>
    (prov (module_of_encoding (m_encoding model)) = None \<or>
     (\<exists>encode. prov (module_of_encoding (m_encoding model)) = Some encode \<and>
                encode inputText = None)) \<longrightarrow>
    calculateTokens prov inputText selectedModel = 0 \<and>
    (debounceTimeout st = Some cb \<and> cb_inputText cb = inputText \<and>
     cb_selectedModel cb = selectedModel \<and> cb_enableTokenCount cb \<longrightarrow>
       stats (timer_fires prov st)
         = (calculateStats prov inputText False selectedModel)\<lparr>tokens := Some (- 1)\<rparr> \<and>
       stats (tokens_resolve prov (length (awaiting st)) (timer_fires prov st))
         = (calculateStats prov inputText False selectedModel)\<lparr>tokens := Some 0\<rparr>)) \<and>
   (stats (tokens_resolve prov k st'))\<lparr>tokens := None\<rparr> = (stats st')\<lparr>tokens := None\<rparr>"
  by (auto simp add: calculateTokens_def timer_fires_def tokens_resolve_def Let_def
      split: prod.splits)

text \<open>
  Two instances: a cycle for the text \<open>ab\<close> under a provider that rejects every import,
  and a provider whose \<open>encode\<close> throws.
\<close>

theorem tokenizer_failure_isolated_witness:
  "calculateTokens rejecting (js ''ab'') ''gpt-4o'' = 0 \<and>
   stats (timer_fires rejecting (updateStats (js ''ab'') True ''gpt-4o'' initial))
     = (calculateStats rejecting (js ''ab'') False ''gpt-4o'')\<lparr>tokens := Some (- 1)\<rparr> \<and>
   stats (tokens_resolve rejecting 0
            (timer_fires rejecting (updateStats (js ''ab'') True ''gpt-4o'' initial)))
     = (calculateStats rejecting (js ''ab'') False ''gpt-4o'')\<lparr>tokens := Some 0\<rparr> \<and>
   calculateTokens throwing (js ''ab'') ''gpt-4'' = 0"
proof -
  let ?m1 = "\<lparr>m_value = ''gpt-4o'', m_label = ''GPT-4o'', m_encoding = ''o200k_base''\<rparr>"
  let ?m2 = "\<lparr>m_value = ''gpt-4'', m_label = ''GPT-4'', m_encoding = ''cl100k_base''\<rparr>"
  let ?st = "updateStats (js ''ab'') True ''gpt-4o'' initial"
  let ?cb = "\<lparr>cb_delay = 300, cb_inputText = js ''ab'', cb_enableTokenCount = True,
              cb_selectedModel = ''gpt-4o''\<rparr>"
  have m1: "find (\<lambda>m. m_value m = ''gpt-4o'') SUPPORTED_MODELS = Some ?m1"
    by (simp add: SUPPORTED_MODELS_def)
  have f1: "rejecting (module_of_encoding (m_encoding ?m1)) = None"
    by (simp add: rejecting_def)
  have t: "debounceTimeout ?st = Some ?cb \<and> cb_inputText ?cb = js ''ab'' \<and>
           cb_selectedModel ?cb = ''gpt-4o'' \<and> cb_enableTokenCount ?cb"
    by (simp add: updateStats_def initial_def Let_def js_def)
  have a: "length (awaiting ?st) = 0"
    by (simp add: updateStats_def initial_def Let_def)
  have m2: "find (\<lambda>m. m_value m = ''gpt-4'') SUPPORTED_MODELS = Some ?m2"
    by (simp add: SUPPORTED_MODELS_def)
  have f2: "throwing (module_of_encoding (m_encoding ?m2)) = Some throwing_encoder \<and>
            throwing_encoder (js ''ab'') = None"
    by (simp add: throwing_def throwing_encoder_def)
  show ?thesis
    using m1 f1 t a m2 f2
      tokenizer_failure_isolated [where selectedModel = "''gpt-4o''" and model = ?m1
            and prov = rejecting and inputText = "js ''ab''" and st = ?st and cb = ?cb]
      tokenizer_failure_isolated [where selectedModel = "''gpt-4''" and model = ?m2
            and prov = throwing and inputText = "js ''ab''"]
    by (simp del: find.simps)
qed

subsection \<open>C9: line breaks in the classification\<close>

text \<open>
  Claim C9. For every text, \<open>spaces\<close> is the number of its space and tab characters, and
  \<open>totalCharsNoSpaces\<close> is the number of all its other characters, newlines and carriage
  returns among them. Newline and carriage return are counted in no classification
  bucket: removing them from the text changes none of the five bucket counts.
\<close>

theorem line_breaks_unclassified:
  "spaces (calculateStats prov s b m) = int (length (filter (\<lambda>c. c = SP \<or> c = TAB) s)) \<and>
   totalCharsNoSpaces (calculateStats prov s b m)
     = int (length (filter (\<lambda>c. c \<noteq> SP \<and> c \<noteq> TAB) s)) \<and>
   chineseChars (calculateStats prov (filter (\<lambda>c. c \<noteq> NL \<and> c \<noteq> CR) s) b m)
     = chineseChars (calculateStats prov s b m) \<and>
   englishChars (calculateStats prov (filter (\<lambda>c. c \<noteq> NL \<and> c \<noteq> CR) s) b m)
     = englishChars (calculateStats prov s b m) \<and>
   numbers (calculateStats prov (filter (\<lambda>c. c \<noteq> NL \<and> c \<noteq> CR) s) b m)
     = numbers (calculateStats prov s b m) \<and>
   punctuation (calculateStats prov (filter (\<lambda>c. c \<noteq> NL \<and> c \<noteq> CR) s) b m)
     = punctuation (calculateStats prov s b m) \<and>
   spaces (calculateStats prov (filter (\<lambda>c. c \<noteq> NL \<and> c \<noteq> CR) s) b m)
     = spaces (calculateStats prov s b m)"
proof -
  have "length (filter (\<lambda>c. c = SP \<or> c = TAB) s)
          + length (filter (\<lambda>c. \<not> (c = SP \<or> c = TAB)) s) = length s"
    by (rule sum_length_filter_compl)
  then have ns: "totalCharsNoSpaces (calculateStats prov s b m)
     = int (length (filter (\<lambda>c. c \<noteq> SP \<and> c \<noteq> TAB) s))"
    by (simp add: noSpaces_calculateStats spaces_calculateStats)
  have "buckets (scan_loop (filter (\<lambda>c. c \<noteq> NL \<and> c \<noteq> CR) s) \<lparr>chineseChars_c = 0, englishChars_c = 0, numbers_c = 0,
                       punctuation_c = 0, spaces_c = 0, lines_c = 1, paragraphs_c = 0,
                       inParagraph = False\<rparr>)
        = buckets (scan_loop s \<lparr>chineseChars_c = 0, englishChars_c = 0, numbers_c = 0,
                       punctuation_c = 0, spaces_c = 0, lines_c = 1, paragraphs_c = 0,
                       inParagraph = False\<rparr>)"
    by (rule buckets_scan_loop_filter) simp
  then have "(chineseChars (calculateStats prov (filter (\<lambda>c. c \<noteq> NL \<and> c \<noteq> CR) s) b m),
      englishChars (calculateStats prov (filter (\<lambda>c. c \<noteq> NL \<and> c \<noteq> CR) s) b m),
      numbers (calculateStats prov (filter (\<lambda>c. c \<noteq> NL \<and> c \<noteq> CR) s) b m),
      punctuation (calculateStats prov (filter (\<lambda>c. c \<noteq> NL \<and> c \<noteq> CR) s) b m),
      spaces (calculateStats prov (filter (\<lambda>c. c \<noteq> NL \<and> c \<noteq> CR) s) b m))
    = (chineseChars (calculateStats prov s b m), englishChars (calculateStats prov s b m),
       numbers (calculateStats prov s b m), punctuation (calculateStats prov s b m),
       spaces (calculateStats prov s b m))"
    by (simp only: buckets_calculateStats)
  with ns spaces_calculateStats [of prov s b m] show ?thesis by simp
qed

subsection \<open>C10: an unknown model\<close>

text \<open>
  Claim C10. For every text, every provider and every model identifier that is not in
  \<open>SUPPORTED_MODELS\<close>, \<open>calculateTokens\<close> gives 0, whatever the tokenizers would return.
\<close>

theorem unknown_model_zero:
  "modelValue \<notin> set (map m_value SUPPORTED_MODELS) \<Longrightarrow>
   calculateTokens prov inputText modelValue = 0"
proof -
  assume "modelValue \<notin> set (map m_value SUPPORTED_MODELS)"
  then have "find (\<lambda>m. m_value m = modelValue) SUPPORTED_MODELS = None"
    by (auto simp add: find_None_iff)
  then show ?thesis by (simp add: calculateTokens_def)
qed

text \<open>
  An instance: the identifier \<open>gpt-5\<close> is not in the table, and under the provider that
  counts one token per code unit the text \<open>hello\<close> has the count 0.
\<close>

theorem unknown_model_zero_witness:
  "''gpt-5'' \<notin> set (map m_value SUPPORTED_MODELS) \<and>
   calculateTokens per_unit (js ''hello'') ''gpt-5'' = 0"
proof -
  have h: "''gpt-5'' \<notin> set (map m_value SUPPORTED_MODELS)"
    by (simp add: SUPPORTED_MODELS_def)
  show ?thesis using h unknown_model_zero [OF h, of per_unit "js ''hello''"] by simp
qed

end
